theory Spec2Isabelle
  imports Main "HOL-Library.Sublist"
begin

section \<open>JavaScript values and exceptions\<close>

text \<open>
  The module \<^verbatim>\<open>application.ts\<close> handles values of TypeScript type \<^verbatim>\<open>any\<close>: the tool
  arguments, the items of a response's \<^verbatim>\<open>content\<close> array, their \<^verbatim>\<open>text\<close> fields and
  whatever \<^verbatim>\<open>JSON.parse\<close> returns. They are JSON-like values. An object is an
  association list (the first binding of a key is the property's value). Numbers are
  restricted to integers: the only numbers the module's own types carry are
  \<^verbatim>\<open>pid\<close> and \<^verbatim>\<open>statusCode\<close>, and the module never prints or computes with a number.
\<close>

datatype jsval =
    JUndefined
  | JNull
  | JBool bool
  | JNum int
  | JStr string
  | JArr "jsval list"
  | JObj "(string \<times> jsval) list"

text \<open>JavaScript's truthiness, as tested by \<^verbatim>\<open>if (v)\<close>, \<^verbatim>\<open>v && ...\<close> and \<^verbatim>\<open>v || ...\<close>.\<close>

fun js_truthy :: "jsval \<Rightarrow> bool" where
  "js_truthy JUndefined = False"
| "js_truthy JNull = False"
| "js_truthy (JBool b) = b"
| "js_truthy (JNum n) = (n \<noteq> 0)"
| "js_truthy (JStr s) = (s \<noteq> [])"
| "js_truthy (JArr xs) = True"
| "js_truthy (JObj kvs) = True"

text \<open>The \<^verbatim>\<open>typeof\<close> operator.\<close>

fun js_typeof :: "jsval \<Rightarrow> string" where
  "js_typeof JUndefined = ''undefined''"
| "js_typeof JNull = ''object''"
| "js_typeof (JBool b) = ''boolean''"
| "js_typeof (JNum n) = ''number''"
| "js_typeof (JStr s) = ''string''"
| "js_typeof (JArr xs) = ''object''"
| "js_typeof (JObj kvs) = ''object''"

text \<open>
  Reading the property \<^verbatim>\<open>v.key\<close> of a value that is neither \<^verbatim>\<open>null\<close> nor
  \<^verbatim>\<open>undefined\<close>: an object yields the property or \<^verbatim>\<open>undefined\<close>; a primitive or an
  array has no property of the names read in this module (\<^verbatim>\<open>text\<close>).
  \<^verbatim>\<open>v?.key\<close> is \<^verbatim>\<open>undefined\<close> on \<^verbatim>\<open>null\<close> and \<^verbatim>\<open>undefined\<close> as well. The module reads
  properties of \<^verbatim>\<open>any\<close> values only behind a truthiness test or through \<^verbatim>\<open>?.\<close>, so the
  TypeError of a read on \<^verbatim>\<open>null\<close> never arises and one function serves both.
\<close>

fun js_get :: "jsval \<Rightarrow> string \<Rightarrow> jsval" where
  "js_get (JObj kvs) key = (case map_of kvs key of None \<Rightarrow> JUndefined | Some v \<Rightarrow> v)"
| "js_get v key = JUndefined"

text \<open>\<^verbatim>\<open>Array.prototype.join\<close> on an array of strings.\<close>

fun js_join :: "string \<Rightarrow> string list \<Rightarrow> string" where
  "js_join sep [] = []"
| "js_join sep [x] = x"
| "js_join sep (x # y # ys) = x @ sep @ js_join sep (y # ys)"

text \<open>
  A thrown value, by the two properties \<^verbatim>\<open>Error.prototype.toString\<close> reads. A thrown
  value that is not an Error object (a rejected promise may carry any value) is
  represented by an empty name and its string form as the message.
\<close>

datatype exn = Exn (exn_name: string) (exn_message: string)

abbreviation Error :: "string \<Rightarrow> exn" where
  "Error msg \<equiv> Exn ''Error'' msg"

text \<open>What a template literal \<^verbatim>\<open>${error}\<close> interpolates: \<^verbatim>\<open>Error.prototype.toString\<close>.\<close>

fun exn_toString :: "exn \<Rightarrow> string" where
  "exn_toString (Exn n m) =
     (if n = [] then m else if m = [] then n else n @ '': '' @ m)"

text \<open>
  \<^verbatim>\<open>try { body } catch (error) { handler }\<close>. The outcome of an \<^verbatim>\<open>async\<close> function is a
  sum: \<open>Inl\<close> the value it rejects with, \<open>Inr\<close> the value it resolves to.
\<close>

definition try_catch :: "exn + 'a \<Rightarrow> (exn \<Rightarrow> exn + 'a) \<Rightarrow> exn + 'a" where
  "try_catch body handler = (case body of Inl error \<Rightarrow> handler error | Inr v \<Rightarrow> Inr v)"

section \<open>Data model\<close>

text \<open>The request object built by \<^verbatim>\<open>callMcpTool\<close> (\<^verbatim>\<open>CallMcpToolRequest\<close>).\<close>

record request =
  rq_authorization :: string
  rq_sessionId :: string
  rq_name :: string
  rq_args :: string

text \<open>
  The transport's response, read at the types the source reads it at:
  \<^verbatim>\<open>response.statusCode\<close>, \<^verbatim>\<open>response.body?.data\<close>, \<^verbatim>\<open>data.isError\<close> (compared with
  \<^verbatim>\<open>=== true\<close>, so any value) and \<^verbatim>\<open>data.content\<close> (\<^verbatim>\<open>any[] | undefined\<close>). Everything else
  the response carries (the metadata \<^verbatim>\<open>extractRequestId\<close> reads) is \<open>resp_meta\<close>.
\<close>

record payload =
  p_isError :: jsval
  p_content :: "jsval list option"

record body =
  body_data :: "payload option"

record response =
  resp_statusCode :: "int option"
  resp_body :: "body option"
  resp_meta :: jsval

text \<open>\<^verbatim>\<open>interface CallMcpToolResult\<close>.\<close>

record CallMcpToolResult =
  r_data :: payload
  r_content :: "jsval list option"
  textContent :: "string option"
  isError :: bool
  errorMsg :: "jsval option"
  r_statusCode :: int
  r_requestId :: "string option"

text \<open>
  What the module takes from outside: the session's accessors, the transport
  (\<^verbatim>\<open>client.callMcpTool\<close>, which may reject), the JSON primitives (each may throw), the
  language's conversion of a value that is not a string to a string (it throws a
  TypeError on an object that has no primitive value, and its rendering of numbers is
  left to the language), and two parts of the repository that are not among the sources:
  \<^verbatim>\<open>extractRequestId\<close> and the \<^verbatim>\<open>name\<close> property of \<^verbatim>\<open>APIError\<close> objects.
\<close>

record env =
  getAPIKey :: string
  getSessionId :: string
  client_callMcpTool :: "request \<Rightarrow> exn + response"
  JSON_stringify :: "jsval \<Rightarrow> exn + string"
  JSON_parse :: "string \<Rightarrow> exn + jsval"
  ToString :: "jsval \<Rightarrow> exn + string"
  extractRequestId :: "response \<Rightarrow> string option"
  APIError_name :: string

definition APIError :: "env \<Rightarrow> string \<Rightarrow> exn" where
  "APIError env msg = Exn (APIError_name env) msg"

text \<open>
  \<^verbatim>\<open>new Error(v)\<close> for a value \<open>v\<close> that is not \<^verbatim>\<open>undefined\<close>: the message is \<open>v\<close> converted to
  a string. A string is its own conversion; any other value goes through the language's
  conversion, whose exception, if it throws, is what the expression throws instead of
  yielding an Error object.
\<close>

definition new_Error :: "env \<Rightarrow> jsval \<Rightarrow> exn + exn" where
  "new_Error env v =
     (case v of
        JStr s \<Rightarrow> Inr (Error s)
      | _ \<Rightarrow> (case ToString env v of Inl error \<Rightarrow> Inl error | Inr msg \<Rightarrow> Inr (Error msg)))"

section \<open>callMcpTool\<close>

definition newline :: string where
  "newline = [CHR 0x0A]"

text \<open>
  The loop over \<^verbatim>\<open>result.content\<close> (lines 142 to 151): an item's text is pushed when the
  item is truthy, an object, and its \<^verbatim>\<open>text\<close> is truthy and a string (behind that guard
  \<^verbatim>\<open>item.text\<close> is a \<open>JStr\<close>, and the other branch of the \<open>case\<close> is never taken).
\<close>

fun textParts_loop :: "jsval list \<Rightarrow> string list \<Rightarrow> string list" where
  "textParts_loop [] textParts = textParts"
| "textParts_loop (item # rest) textParts =
     textParts_loop rest
       (if js_truthy item \<and> js_typeof item = ''object'' \<and> js_truthy (js_get item ''text'')
           \<and> js_typeof (js_get item ''text'') = ''string''
        then (case js_get item ''text'' of JStr s \<Rightarrow> textParts @ [s] | _ \<Rightarrow> textParts)
        else textParts)"

text \<open>\<^verbatim>\<open>response.body?.data\<close>; a payload object is always truthy.\<close>

definition response_data :: "response \<Rightarrow> payload option" where
  "response_data response =
     (case resp_body response of None \<Rightarrow> None | Some b \<Rightarrow> body_data b)"

text \<open>
  The body of the \<^verbatim>\<open>try\<close> block of \<^verbatim>\<open>callMcpTool\<close> (lines 82 to 156), in two parts:
  \<open>send_request\<close> serialises the arguments, builds the request and awaits the transport
  (lines 82 to 95); the rest normalises the response. The log calls have no effect on the
  result and are left out.
\<close>

definition CallMcpToolRequest :: "env \<Rightarrow> string \<Rightarrow> string \<Rightarrow> request" where
  "CallMcpToolRequest env toolName argsJSON =
     \<lparr>rq_authorization = ''Bearer '' @ getAPIKey env,
      rq_sessionId = getSessionId env,
      rq_name = toolName,
      rq_args = argsJSON\<rparr>"

definition send_request :: "env \<Rightarrow> string \<Rightarrow> jsval \<Rightarrow> exn + response" where
  "send_request env toolName args =
     (case JSON_stringify env args of
        Inl error \<Rightarrow> Inl error
      | Inr argsJSON \<Rightarrow> client_callMcpTool env (CallMcpToolRequest env toolName argsJSON))"

definition callMcpTool_try ::
  "env \<Rightarrow> string \<Rightarrow> jsval \<Rightarrow> string \<Rightarrow> exn + CallMcpToolResult" where
  "callMcpTool_try env toolName args defaultErrorMsg =
     (case send_request env toolName args of
        Inl error \<Rightarrow> Inl error
      | Inr response \<Rightarrow>
          (case response_data response of
             None \<Rightarrow> Inl (Error ''Invalid response data format'')
           | Some data \<Rightarrow>
               let result = \<lparr>r_data = data,
                             r_content = None,
                             textContent = None,
                             isError = False,
                             errorMsg = None,
                             r_statusCode =
                               (case resp_statusCode response of None \<Rightarrow> 0 | Some c \<Rightarrow> c),
                             r_requestId = extractRequestId env response\<rparr>
               in if p_isError data = JBool True then
                    (let result = result\<lparr>isError := True\<rparr>
                     in case p_content data of
                          Some (first # others) \<Rightarrow>
                            let result = result\<lparr>r_content := Some (first # others)\<rparr>
                            in if js_truthy (js_get first ''text'')
                               then (let result = result\<lparr>errorMsg := Some (js_get first ''text'')\<rparr>
                                     in case new_Error env (js_get first ''text'') of
                                          Inl error \<Rightarrow> Inl error
                                        | Inr thrown \<Rightarrow> Inl thrown)
                               else Inl (Error defaultErrorMsg)
                        | _ \<Rightarrow> Inl (Error defaultErrorMsg))
                  else
                    (case p_content data of
                       Some content \<Rightarrow>
                         let result = result\<lparr>r_content := Some content\<rparr>
                         in if content \<noteq> []
                            then Inr (result\<lparr>textContent :=
                                        Some (js_join newline (textParts_loop content []))\<rparr>)
                            else Inr result
                     | None \<Rightarrow> Inr result)))"

text \<open>
  \<^verbatim>\<open>callMcpTool\<close>: whatever the body throws is wrapped into an \<^verbatim>\<open>APIError\<close> whose
  message interpolates the tool name and the caught error (lines 157 to 160).
\<close>

definition callMcpTool ::
  "env \<Rightarrow> string \<Rightarrow> jsval \<Rightarrow> string \<Rightarrow> exn + CallMcpToolResult" where
  "callMcpTool env toolName args defaultErrorMsg =
     try_catch (callMcpTool_try env toolName args defaultErrorMsg)
       (\<lambda>error. Inl (APIError env (''Failed to call '' @ toolName @ '': '' @ exn_toString error)))"

text \<open>\<^verbatim>\<open>parseJSON\<close> (lines 166 to 172).\<close>

definition parseJSON :: "env \<Rightarrow> string \<Rightarrow> exn + jsval" where
  "parseJSON env jsonString =
     try_catch (JSON_parse env jsonString)
       (\<lambda>error. Inl (Error (''Failed to parse JSON: '' @ exn_toString error)))"

section \<open>The six public operations\<close>

text \<open>
  The public results. \<^verbatim>\<open>AppOperationResult\<close> has \<^verbatim>\<open>requestId\<close>, \<^verbatim>\<open>success\<close> and an optional
  \<^verbatim>\<open>errorMessage\<close>; \<^verbatim>\<open>InstalledAppListResult\<close> and \<^verbatim>\<open>ProcessListResult\<close> add \<^verbatim>\<open>data\<close>,
  which at run time is whatever \<^verbatim>\<open>JSON.parse\<close> returned.
\<close>

record AppOperationResult =
  requestId :: string
  success :: bool
  errorMessage :: "string option"

record ListResult = AppOperationResult +
  data :: jsval

text \<open>A parameter with a default value: the default stands in when the argument is omitted.\<close>

definition default_param :: "'a \<Rightarrow> 'a option \<Rightarrow> 'a" where
  "default_param d arg = (case arg of None \<Rightarrow> d | Some v \<Rightarrow> v)"

text \<open>The assignment \<^verbatim>\<open>args.key = v\<close> on an object.\<close>

fun js_set :: "(string \<times> jsval) list \<Rightarrow> string \<Rightarrow> jsval \<Rightarrow> (string \<times> jsval) list" where
  "js_set [] key v = [(key, v)]"
| "js_set ((k, w) # kvs) key v = (if k = key then (k, v) # kvs else (k, w) # js_set kvs key v)"

text \<open>\<^verbatim>\<open>result.requestId || ""\<close>.\<close>

definition or_empty :: "string option \<Rightarrow> string" where
  "or_empty s = (case s of None \<Rightarrow> [] | Some v \<Rightarrow> v)"

text \<open>
  The block the three list-returning operations share: the list starts empty and is
  replaced by the parsed \<^verbatim>\<open>textContent\<close> when that is truthy (present and non-empty).
\<close>

definition parse_textContent :: "env \<Rightarrow> CallMcpToolResult \<Rightarrow> exn + jsval" where
  "parse_textContent env result =
     (case textContent result of
        None \<Rightarrow> Inr (JArr [])
      | Some tc \<Rightarrow> if tc \<noteq> [] then parseJSON env tc else Inr (JArr []))"

subsection \<open>getInstalledApps\<close>

definition getInstalledApps_args ::
  "bool option \<Rightarrow> bool option \<Rightarrow> bool option \<Rightarrow> (string \<times> jsval) list" where
  "getInstalledApps_args startMenu desktop ignoreSystemApps =
     [(''start_menu'', JBool (default_param True startMenu)),
      (''desktop'', JBool (default_param True desktop)),
      (''ignore_system_apps'', JBool (default_param True ignoreSystemApps))]"

definition getInstalledApps_try ::
  "env \<Rightarrow> bool option \<Rightarrow> bool option \<Rightarrow> bool option \<Rightarrow> exn + ListResult" where
  "getInstalledApps_try env startMenu desktop ignoreSystemApps =
     (let args = getInstalledApps_args startMenu desktop ignoreSystemApps
      in case callMcpTool env ''get_installed_apps'' (JObj args) ''Failed to get installed apps'' of
           Inl error \<Rightarrow> Inl error
         | Inr result \<Rightarrow>
             (case parse_textContent env result of
                Inl error \<Rightarrow> Inl error
              | Inr apps \<Rightarrow>
                  Inr \<lparr>requestId = or_empty (r_requestId result), success = True,
                       errorMessage = None, data = apps\<rparr>))"

definition getInstalledApps ::
  "env \<Rightarrow> bool option \<Rightarrow> bool option \<Rightarrow> bool option \<Rightarrow> exn + ListResult" where
  "getInstalledApps env startMenu desktop ignoreSystemApps =
     try_catch (getInstalledApps_try env startMenu desktop ignoreSystemApps)
       (\<lambda>error. Inr \<lparr>requestId = [], success = False,
                      errorMessage = Some (''Failed to get installed apps: '' @ exn_toString error),
                      data = JArr []\<rparr>)"

subsection \<open>startApp\<close>

definition startApp_args :: "string \<Rightarrow> string option \<Rightarrow> string option \<Rightarrow> (string \<times> jsval) list" where
  "startApp_args startCmd workDirectory activity =
     (let args = [(''start_cmd'', JStr startCmd)];
          args = (if default_param [] workDirectory \<noteq> []
                  then js_set args ''work_directory'' (JStr (default_param [] workDirectory))
                  else args);
          args = (if default_param [] activity \<noteq> []
                  then js_set args ''activity'' (JStr (default_param [] activity))
                  else args)
      in args)"

definition startApp_try ::
  "env \<Rightarrow> string \<Rightarrow> string option \<Rightarrow> string option \<Rightarrow> exn + ListResult" where
  "startApp_try env startCmd workDirectory activity =
     (let args = startApp_args startCmd workDirectory activity
      in case callMcpTool env ''start_app'' (JObj args) ''Failed to start app'' of
           Inl error \<Rightarrow> Inl error
         | Inr result \<Rightarrow>
             (case parse_textContent env result of
                Inl error \<Rightarrow> Inl error
              | Inr processes \<Rightarrow>
                  Inr \<lparr>requestId = or_empty (r_requestId result), success = True,
                       errorMessage = None, data = processes\<rparr>))"

definition startApp ::
  "env \<Rightarrow> string \<Rightarrow> string option \<Rightarrow> string option \<Rightarrow> exn + ListResult" where
  "startApp env startCmd workDirectory activity =
     try_catch (startApp_try env startCmd workDirectory activity)
       (\<lambda>error. Inr \<lparr>requestId = [], success = False,
                      errorMessage = Some (''Failed to start app: '' @ exn_toString error),
                      data = JArr []\<rparr>)"

subsection \<open>stopAppByPName, stopAppByPID, stopAppByCmd\<close>

definition stopAppByPName_try :: "env \<Rightarrow> string \<Rightarrow> exn + AppOperationResult" where
  "stopAppByPName_try env pname =
     (let args = [(''pname'', JStr pname)]
      in case callMcpTool env ''stop_app_by_pname'' (JObj args) ''Failed to stop app by pname'' of
           Inl error \<Rightarrow> Inl error
         | Inr result \<Rightarrow>
             Inr \<lparr>requestId = or_empty (r_requestId result), success = True,
                  errorMessage = None\<rparr>)"

definition stopAppByPName :: "env \<Rightarrow> string \<Rightarrow> exn + AppOperationResult" where
  "stopAppByPName env pname =
     try_catch (stopAppByPName_try env pname)
       (\<lambda>error. Inr \<lparr>requestId = [], success = False,
                      errorMessage = Some (''Failed to stop app by pname: '' @ exn_toString error)\<rparr>)"

definition stopAppByPID_try :: "env \<Rightarrow> int \<Rightarrow> exn + AppOperationResult" where
  "stopAppByPID_try env pid =
     (let args = [(''pid'', JNum pid)]
      in case callMcpTool env ''stop_app_by_pid'' (JObj args) ''Failed to stop app by pid'' of
           Inl error \<Rightarrow> Inl error
         | Inr result \<Rightarrow>
             Inr \<lparr>requestId = or_empty (r_requestId result), success = True,
                  errorMessage = None\<rparr>)"

definition stopAppByPID :: "env \<Rightarrow> int \<Rightarrow> exn + AppOperationResult" where
  "stopAppByPID env pid =
     try_catch (stopAppByPID_try env pid)
       (\<lambda>error. Inr \<lparr>requestId = [], success = False,
                      errorMessage = Some (''Failed to stop app by pid: '' @ exn_toString error)\<rparr>)"

definition stopAppByCmd_try :: "env \<Rightarrow> string \<Rightarrow> exn + AppOperationResult" where
  "stopAppByCmd_try env stopCmd =
     (let args = [(''stop_cmd'', JStr stopCmd)]
      in case callMcpTool env ''stop_app_by_cmd'' (JObj args) ''Failed to stop app by command'' of
           Inl error \<Rightarrow> Inl error
         | Inr result \<Rightarrow>
             Inr \<lparr>requestId = or_empty (r_requestId result), success = True,
                  errorMessage = None\<rparr>)"

definition stopAppByCmd :: "env \<Rightarrow> string \<Rightarrow> exn + AppOperationResult" where
  "stopAppByCmd env stopCmd =
     try_catch (stopAppByCmd_try env stopCmd)
       (\<lambda>error. Inr \<lparr>requestId = [], success = False,
                      errorMessage = Some (''Failed to stop app by command: '' @ exn_toString error)\<rparr>)"

subsection \<open>listVisibleApps\<close>

definition listVisibleApps_try :: "env \<Rightarrow> exn + ListResult" where
  "listVisibleApps_try env =
     (let args = []
      in case callMcpTool env ''list_visible_apps'' (JObj args) ''Failed to list visible apps'' of
           Inl error \<Rightarrow> Inl error
         | Inr result \<Rightarrow>
             (case parse_textContent env result of
                Inl error \<Rightarrow> Inl error
              | Inr processes \<Rightarrow>
                  Inr \<lparr>requestId = or_empty (r_requestId result), success = True,
                       errorMessage = None, data = processes\<rparr>))"

definition listVisibleApps :: "env \<Rightarrow> exn + ListResult" where
  "listVisibleApps env =
     try_catch (listVisibleApps_try env)
       (\<lambda>error. Inr \<lparr>requestId = [], success = False,
                      errorMessage = Some (''Failed to list visible apps: '' @ exn_toString error),
                      data = JArr []\<rparr>)"

section \<open>The operations as data\<close>

text \<open>
  To state a property of all six operations at once, an invocation is a value: the
  operation with its actual parameters (\<open>None\<close> for an omitted optional one). The three
  functions below give what that operation passes to \<^verbatim>\<open>callMcpTool\<close>;
  \<open>parses_textContent\<close> tells whether it parses the text payload; \<open>run\<close> calls the
  operation itself and keeps the fields all results share.
\<close>

datatype operation =
    GetInstalledApps "bool option" "bool option" "bool option"
  | StartApp string "string option" "string option"
  | StopAppByPName string
  | StopAppByPID int
  | StopAppByCmd string
  | ListVisibleApps

fun toolName_of :: "operation \<Rightarrow> string" where
  "toolName_of (GetInstalledApps startMenu desktop ignoreSystemApps) = ''get_installed_apps''"
| "toolName_of (StartApp startCmd workDirectory activity) = ''start_app''"
| "toolName_of (StopAppByPName pname) = ''stop_app_by_pname''"
| "toolName_of (StopAppByPID pid) = ''stop_app_by_pid''"
| "toolName_of (StopAppByCmd stopCmd) = ''stop_app_by_cmd''"
| "toolName_of ListVisibleApps = ''list_visible_apps''"

fun args_of :: "operation \<Rightarrow> jsval" where
  "args_of (GetInstalledApps startMenu desktop ignoreSystemApps) =
     JObj (getInstalledApps_args startMenu desktop ignoreSystemApps)"
| "args_of (StartApp startCmd workDirectory activity) =
     JObj (startApp_args startCmd workDirectory activity)"
| "args_of (StopAppByPName pname) = JObj [(''pname'', JStr pname)]"
| "args_of (StopAppByPID pid) = JObj [(''pid'', JNum pid)]"
| "args_of (StopAppByCmd stopCmd) = JObj [(''stop_cmd'', JStr stopCmd)]"
| "args_of ListVisibleApps = JObj []"

fun defaultErrorMsg_of :: "operation \<Rightarrow> string" where
  "defaultErrorMsg_of (GetInstalledApps startMenu desktop ignoreSystemApps) =
     ''Failed to get installed apps''"
| "defaultErrorMsg_of (StartApp startCmd workDirectory activity) = ''Failed to start app''"
| "defaultErrorMsg_of (StopAppByPName pname) = ''Failed to stop app by pname''"
| "defaultErrorMsg_of (StopAppByPID pid) = ''Failed to stop app by pid''"
| "defaultErrorMsg_of (StopAppByCmd stopCmd) = ''Failed to stop app by command''"
| "defaultErrorMsg_of ListVisibleApps = ''Failed to list visible apps''"

fun parses_textContent :: "operation \<Rightarrow> bool" where
  "parses_textContent (GetInstalledApps startMenu desktop ignoreSystemApps) = True"
| "parses_textContent (StartApp startCmd workDirectory activity) = True"
| "parses_textContent (StopAppByPName pname) = False"
| "parses_textContent (StopAppByPID pid) = False"
| "parses_textContent (StopAppByCmd stopCmd) = False"
| "parses_textContent ListVisibleApps = True"

definition status_of :: "'a AppOperationResult_scheme \<Rightarrow> AppOperationResult" where
  "status_of r =
     \<lparr>requestId = requestId r, success = success r, errorMessage = errorMessage r\<rparr>"

fun run :: "env \<Rightarrow> operation \<Rightarrow> exn + AppOperationResult" where
  "run env (GetInstalledApps startMenu desktop ignoreSystemApps) =
     map_sum id status_of (getInstalledApps env startMenu desktop ignoreSystemApps)"
| "run env (StartApp startCmd workDirectory activity) =
     map_sum id status_of (startApp env startCmd workDirectory activity)"
| "run env (StopAppByPName pname) = map_sum id status_of (stopAppByPName env pname)"
| "run env (StopAppByPID pid) = map_sum id status_of (stopAppByPID env pid)"
| "run env (StopAppByCmd stopCmd) = map_sum id status_of (stopAppByCmd env stopCmd)"
| "run env ListVisibleApps = map_sum id status_of (listVisibleApps env)"

section \<open>Reading the text of content items\<close>

text \<open>
  The text of a content item when the item is an object whose \<^verbatim>\<open>text\<close> property is a
  non-empty string.
\<close>

fun nonempty_string_text :: "jsval \<Rightarrow> string option" where
  "nonempty_string_text (JObj kvs) =
     (case map_of kvs ''text'' of
        Some (JStr s) \<Rightarrow> if s \<noteq> [] then Some s else None
      | _ \<Rightarrow> None)"
| "nonempty_string_text v = None"

text \<open>
  The specification's reading, for comparison: the text of every item that has a string
  \<^verbatim>\<open>text\<close> field, the items without one skipped, joined by newlines.
\<close>

fun spec_string_text :: "jsval \<Rightarrow> string option" where
  "spec_string_text (JObj kvs) =
     (case map_of kvs ''text'' of Some (JStr s) \<Rightarrow> Some s | _ \<Rightarrow> None)"
| "spec_string_text v = None"

definition spec_textContent :: "jsval list \<Rightarrow> string" where
  "spec_textContent content = js_join newline (List.map_filter spec_string_text content)"

section \<open>A test double\<close>

text \<open>
  A session whose transport answers every request with \<open>reply\<close>, with stand-ins for the
  JSON primitives and the string conversion: the parser knows two texts and rejects
  every other.
\<close>

definition stub_parse :: "string \<Rightarrow> exn + jsval" where
  \<open>stub_parse s =
     (if s = ''[]'' then Inr (JArr [])
      else if s = ''[{"pname":"sh","pid":7}]''
      then Inr (JArr [JObj [(''pname'', JStr ''sh''), (''pid'', JNum 7)]])
      else Inl (Exn ''SyntaxError'' ''Unexpected token''))\<close>

definition stub_env :: "exn + response \<Rightarrow> env" where
  "stub_env reply =
     \<lparr>getAPIKey = ''key'',
      getSessionId = ''session'',
      client_callMcpTool = (\<lambda>request. reply),
      JSON_stringify = (\<lambda>v. Inr ''{}''),
      JSON_parse = stub_parse,
      ToString = (\<lambda>v. case v of
                        JBool b \<Rightarrow> Inr (if b then ''true'' else ''false'')
                      | _ \<Rightarrow> Inl (Exn ''TypeError'' ''Cannot convert object to primitive value'')),
      extractRequestId = (\<lambda>response. case resp_meta response of JStr s \<Rightarrow> Some s | _ \<Rightarrow> None),
      APIError_name = ''APIError''\<rparr>"

definition stub_response :: "jsval \<Rightarrow> jsval list option \<Rightarrow> response" where
  "stub_response flag content =
     \<lparr>resp_statusCode = Some 200,
      resp_body = Some \<lparr>body_data = Some \<lparr>p_isError = flag, p_content = content\<rparr>\<rparr>,
      resp_meta = JStr ''req-1''\<rparr>"

text \<open>
  A second session, to observe what \<^verbatim>\<open>startApp\<close> sends: its serialiser lists the keys of
  the mapping, and its transport rejects exactly the \<^verbatim>\<open>start_app\<close> request whose
  serialised arguments are \<open>start_cmd,work_directory\<close>; every other request is answered
  with a success response without content.
\<close>

definition keys_stringify :: "jsval \<Rightarrow> exn + string" where
  "keys_stringify v = (case v of JObj kvs \<Rightarrow> Inr (js_join '','' (map fst kvs)) | _ \<Rightarrow> Inr [])"

definition picky_transport :: "request \<Rightarrow> exn + response" where
  "picky_transport request =
     (if rq_name request = ''start_app'' \<and> rq_args request = ''start_cmd,work_directory''
      then Inl (Error ''down'')
      else Inr (stub_response (JBool False) None))"

definition picky_env :: env where
  "picky_env =
     (stub_env (Inr (stub_response (JBool False) None)))
       \<lparr>client_callMcpTool := picky_transport, JSON_stringify := keys_stringify\<rparr>"

section \<open>How the operations unfold\<close>

lemmas op_defs =
  getInstalledApps_def getInstalledApps_try_def startApp_def startApp_try_def
  stopAppByPName_def stopAppByPName_try_def stopAppByPID_def stopAppByPID_try_def
  stopAppByCmd_def stopAppByCmd_try_def listVisibleApps_def listVisibleApps_try_def

lemmas stub_defs = stub_env_def stub_response_def stub_parse_def

text \<open>
  Every operation is one call of \<^verbatim>\<open>callMcpTool\<close>, an optional parse, and a handler whose
  message starts with the text also passed as the default error message.
\<close>

lemma run_unfold:
  "run env op =
     (case callMcpTool env (toolName_of op) (args_of op) (defaultErrorMsg_of op) of
        Inl error \<Rightarrow>
          Inr \<lparr>requestId = [], success = False,
               errorMessage = Some (defaultErrorMsg_of op @ '': '' @ exn_toString error)\<rparr>
      | Inr result \<Rightarrow>
          (case (if parses_textContent op then parse_textContent env result else Inr JNull) of
             Inl error \<Rightarrow>
               Inr \<lparr>requestId = [], success = False,
                    errorMessage = Some (defaultErrorMsg_of op @ '': '' @ exn_toString error)\<rparr>
           | Inr v \<Rightarrow>
               Inr \<lparr>requestId = or_empty (r_requestId result), success = True,
                    errorMessage = None\<rparr>))"
  by (cases op) (simp_all add: op_defs try_catch_def status_of_def Let_def split: sum.splits)

section \<open>The outcomes of callMcpTool\<close>

lemma callMcpTool_send_fails:
  "send_request env toolName args = Inl e \<Longrightarrow>
   callMcpTool env toolName args d =
     Inl (APIError env (''Failed to call '' @ toolName @ '': '' @ exn_toString e))"
  by (simp add: callMcpTool_def callMcpTool_try_def try_catch_def)

lemma callMcpTool_no_data:
  "send_request env toolName args = Inr response \<Longrightarrow> response_data response = None \<Longrightarrow>
   callMcpTool env toolName args d =
     Inl (APIError env (''Failed to call '' @ toolName @ '': Error: Invalid response data format''))"
  by (simp add: callMcpTool_def callMcpTool_try_def try_catch_def)

lemma callMcpTool_try_isError:
  "send_request env toolName args = Inr response \<Longrightarrow> response_data response = Some pl \<Longrightarrow>
   p_isError pl = JBool True \<Longrightarrow>
   callMcpTool_try env toolName args d =
     (case p_content pl of
        Some (first # others) \<Rightarrow>
          if js_truthy (js_get first ''text'')
          then (case new_Error env (js_get first ''text'') of
                  Inl error \<Rightarrow> Inl error | Inr thrown \<Rightarrow> Inl thrown)
          else Inl (Error d)
      | _ \<Rightarrow> Inl (Error d))"
  by (simp add: callMcpTool_try_def Let_def split: option.splits list.splits)

lemma callMcpTool_try_isError_raises:
  "send_request env toolName args = Inr response \<Longrightarrow> response_data response = Some pl \<Longrightarrow>
   p_isError pl = JBool True \<Longrightarrow> \<exists>error. callMcpTool_try env toolName args d = Inl error"
  by (simp add: callMcpTool_try_isError split: option.splits list.splits sum.splits)

lemma callMcpTool_wraps:
  "callMcpTool_try env toolName args d = Inl e \<Longrightarrow>
   callMcpTool env toolName args d =
     Inl (APIError env (''Failed to call '' @ toolName @ '': '' @ exn_toString e))"
  by (simp add: callMcpTool_def try_catch_def)

lemma callMcpTool_ok:
  "send_request env toolName args = Inr response \<Longrightarrow> response_data response = Some pl \<Longrightarrow>
   p_isError pl \<noteq> JBool True \<Longrightarrow>
   callMcpTool env toolName args d =
     Inr \<lparr>r_data = pl, r_content = p_content pl,
          textContent =
            (case p_content pl of
               None \<Rightarrow> None
             | Some content \<Rightarrow>
                 if content \<noteq> [] then Some (js_join newline (textParts_loop content [])) else None),
          isError = False, errorMsg = None,
          r_statusCode = (case resp_statusCode response of None \<Rightarrow> 0 | Some c \<Rightarrow> c),
          r_requestId = extractRequestId env response\<rparr>"
  by (simp add: callMcpTool_def callMcpTool_try_def try_catch_def Let_def split: option.splits)

lemma callMcpTool_Inr_not_isError:
  "callMcpTool env toolName args d = Inr result \<Longrightarrow> \<not> isError result"
  by (auto simp: callMcpTool_def callMcpTool_try_def try_catch_def Let_def
      split: sum.splits option.splits list.splits if_splits)

section \<open>The outcomes of the operations\<close>

lemma run_callMcpTool_Inl:
  "callMcpTool env (toolName_of op) (args_of op) (defaultErrorMsg_of op) = Inl e \<Longrightarrow>
   run env op = Inr \<lparr>requestId = [], success = False,
                     errorMessage = Some (defaultErrorMsg_of op @ '': '' @ exn_toString e)\<rparr>"
  by (simp add: run_unfold)

lemma run_parse_fails:
  "parses_textContent op \<Longrightarrow>
   callMcpTool env (toolName_of op) (args_of op) (defaultErrorMsg_of op) = Inr result \<Longrightarrow>
   textContent result = Some tc \<Longrightarrow> tc \<noteq> [] \<Longrightarrow> JSON_parse env tc = Inl e \<Longrightarrow>
   run env op = Inr \<lparr>requestId = [], success = False,
                     errorMessage = Some (defaultErrorMsg_of op @ '': Error: Failed to parse JSON: ''
                                            @ exn_toString e)\<rparr>"
  by (simp add: run_unfold parse_textContent_def parseJSON_def try_catch_def)



lemma run_total:
  "\<exists>r. run env op = Inr r \<and>
       (\<not> success r \<longrightarrow> requestId r = [] \<and> (\<exists>m. errorMessage r = Some m \<and> m \<noteq> []))"
  by (cases op) (simp_all add: run_unfold split: sum.splits)

lemma send_request_stringify_fails:
  "JSON_stringify env args = Inl e \<Longrightarrow> send_request env toolName args = Inl e"
  by (simp add: send_request_def)

lemma send_request_transport_fails:
  "JSON_stringify env args = Inr argsJSON \<Longrightarrow>
   client_callMcpTool env (CallMcpToolRequest env toolName argsJSON) = Inl e \<Longrightarrow>
   send_request env toolName args = Inl e"
  by (simp add: send_request_def)

lemma sublist_exn_toString:
  "sublist s m \<Longrightarrow> sublist s (exn_toString (Exn n m))"
proof -
  assume a: "sublist s m"
  then obtain ps ss where m: "m = ps @ s @ ss" by (auto simp: sublist_def)
  show ?thesis
  proof (cases "n = []")
    case True then show ?thesis using a by simp
  next
    case False
    show ?thesis
    proof (cases "m = []")
      case True
      with m have "s = []" by simp
      then show ?thesis by simp
    next
      case mne: False
      have "n @ '': '' @ m = (n @ '': '' @ ps) @ s @ ss" using m by simp
      then have "sublist s (n @ '': '' @ m)" unfolding sublist_def by blast
      then show ?thesis using False mne by simp
    qed
  qed
qed

lemma sublist_failure_message:
  "sublist s m \<Longrightarrow> sublist s (d @ '': '' @ exn_toString (Exn n m))"
proof -
  assume "sublist s m"
  then have "sublist s (exn_toString (Exn n m))" by (rule sublist_exn_toString)
  then obtain ps ss where "exn_toString (Exn n m) = ps @ s @ ss" by (auto simp: sublist_def)
  then have "d @ '': '' @ exn_toString (Exn n m) = (d @ '': '' @ ps) @ s @ ss" by simp
  then show ?thesis unfolding sublist_def by blast
qed

lemma new_Error_ignores_parser:
  "new_Error (env\<lparr>JSON_parse := parse\<rparr>) v = new_Error env v"
  by (cases v) (simp_all add: new_Error_def)

lemma callMcpTool_ignores_parser:
  "callMcpTool (env\<lparr>JSON_parse := parse\<rparr>) toolName args d = callMcpTool env toolName args d"
  by (simp add: callMcpTool_def callMcpTool_try_def send_request_def CallMcpToolRequest_def
      APIError_def try_catch_def Let_def new_Error_ignores_parser
      split: sum.splits option.splits list.splits)

section \<open>The loop over the content items\<close>

lemma push_guard:
  "(if js_truthy item \<and> js_typeof item = ''object'' \<and> js_truthy (js_get item ''text'')
        \<and> js_typeof (js_get item ''text'') = ''string''
    then (case js_get item ''text'' of JStr s \<Rightarrow> textParts @ [s] | _ \<Rightarrow> textParts)
    else textParts)
   = (case nonempty_string_text item of None \<Rightarrow> textParts | Some s \<Rightarrow> textParts @ [s])"
proof (cases item)
  case (JObj kvs)
  show ?thesis
  proof (cases "map_of kvs ''text''")
    case None
    then show ?thesis using JObj by simp
  next
    case (Some v)
    then show ?thesis using JObj by (cases v) simp_all
  qed
qed simp_all

lemma textParts_loop_map_filter:
  "textParts_loop content textParts = textParts @ List.map_filter nonempty_string_text content"
proof (induction content arbitrary: textParts)
  case Nil
  then show ?case by simp
next
  case (Cons item rest)
  show ?case
    unfolding textParts_loop.simps push_guard Cons.IH
    by (simp split: option.splits)
qed

lemma parse_textContent_ok:
  "textContent result = Some tc \<Longrightarrow> tc \<noteq> [] \<Longrightarrow> JSON_parse env tc = Inr v \<Longrightarrow>
   parse_textContent env result = Inr v"
  by (simp add: parse_textContent_def parseJSON_def try_catch_def)

section \<open>Claims\<close>

text \<open>
  C1. Each of the six operations resolves, for every input and every environment: it
  never rejects, and a result with \<^verbatim>\<open>success = false\<close> has \<^verbatim>\<open>requestId = ""\<close> and a
  non-empty \<^verbatim>\<open>errorMessage\<close>. Whenever an error arises during the call, the result is such
  a failure record. The errors are: \<^verbatim>\<open>JSON.stringify\<close> throws (serialization failure), the
  transport rejects (transport failure), the response has no data payload (malformed
  response), the payload has \<^verbatim>\<open>isError = true\<close> (logical tool error), and, in the
  operations that parse the text payload, \<^verbatim>\<open>JSON.parse\<close> throws (JSON-parse failure).
\<close>

theorem errors_become_failure_results:
  "(\<exists>r. run env op = Inr r \<and>
        (\<not> success r \<longrightarrow> requestId r = [] \<and> (\<exists>m. errorMessage r = Some m \<and> m \<noteq> [])))
   \<and> ((\<exists>e. JSON_stringify env (args_of op) = Inl e)
        \<or> (\<exists>argsJSON e. JSON_stringify env (args_of op) = Inr argsJSON
              \<and> client_callMcpTool env (CallMcpToolRequest env (toolName_of op) argsJSON) = Inl e)
        \<or> (\<exists>response. send_request env (toolName_of op) (args_of op) = Inr response
              \<and> response_data response = None)
        \<or> (\<exists>response pl. send_request env (toolName_of op) (args_of op) = Inr response
              \<and> response_data response = Some pl \<and> p_isError pl = JBool True)
        \<or> (parses_textContent op
              \<and> (\<exists>result tc e.
                    callMcpTool env (toolName_of op) (args_of op) (defaultErrorMsg_of op) = Inr result
                    \<and> textContent result = Some tc \<and> tc \<noteq> [] \<and> JSON_parse env tc = Inl e))
       \<longrightarrow> (\<exists>r m. run env op = Inr r \<and> \<not> success r \<and> requestId r = []
                    \<and> errorMessage r = Some m \<and> m \<noteq> []))"
proof (intro conjI impI)
  show "\<exists>r. run env op = Inr r \<and>
        (\<not> success r \<longrightarrow> requestId r = [] \<and> (\<exists>m. errorMessage r = Some m \<and> m \<noteq> []))"
    by (rule run_total)
next
  let ?call = "callMcpTool env (toolName_of op) (args_of op) (defaultErrorMsg_of op)"
  assume errs: "(\<exists>e. JSON_stringify env (args_of op) = Inl e)
        \<or> (\<exists>argsJSON e. JSON_stringify env (args_of op) = Inr argsJSON
              \<and> client_callMcpTool env (CallMcpToolRequest env (toolName_of op) argsJSON) = Inl e)
        \<or> (\<exists>response. send_request env (toolName_of op) (args_of op) = Inr response
              \<and> response_data response = None)
        \<or> (\<exists>response pl. send_request env (toolName_of op) (args_of op) = Inr response
              \<and> response_data response = Some pl \<and> p_isError pl = JBool True)
        \<or> (parses_textContent op
              \<and> (\<exists>result tc e. ?call = Inr result
                    \<and> textContent result = Some tc \<and> tc \<noteq> [] \<and> JSON_parse env tc = Inl e))"
  have fails: "\<exists>r. run env op = Inr r \<and> \<not> success r"
    using errs
  proof (elim disjE exE conjE)
    fix e assume "JSON_stringify env (args_of op) = Inl e"
    then have "\<exists>x. ?call = Inl x"
      by (simp add: send_request_stringify_fails callMcpTool_send_fails)
    then show ?thesis by (auto simp: run_callMcpTool_Inl)
  next
    fix argsJSON e
    assume "JSON_stringify env (args_of op) = Inr argsJSON"
      "client_callMcpTool env (CallMcpToolRequest env (toolName_of op) argsJSON) = Inl e"
    then have "\<exists>x. ?call = Inl x"
      by (simp add: send_request_transport_fails callMcpTool_send_fails)
    then show ?thesis by (auto simp: run_callMcpTool_Inl)
  next
    fix response
    assume "send_request env (toolName_of op) (args_of op) = Inr response"
      "response_data response = None"
    then have "\<exists>x. ?call = Inl x"
      by (simp add: callMcpTool_no_data)
    then show ?thesis by (auto simp: run_callMcpTool_Inl)
  next
    fix response pl
    assume "send_request env (toolName_of op) (args_of op) = Inr response"
      "response_data response = Some pl" "p_isError pl = JBool True"
    then have "\<exists>x. ?call = Inl x"
      using callMcpTool_try_isError_raises callMcpTool_wraps by blast
    then show ?thesis by (auto simp: run_callMcpTool_Inl)
  next
    fix result tc e
    assume "parses_textContent op" "?call = Inr result" "textContent result = Some tc"
      "tc \<noteq> []" "JSON_parse env tc = Inl e"
    then show ?thesis by (simp add: run_parse_fails)
  qed
  then show "\<exists>r m. run env op = Inr r \<and> \<not> success r \<and> requestId r = []
                    \<and> errorMessage r = Some m \<and> m \<noteq> []"
    using run_total [of env op] by auto
qed

theorem errors_become_failure_results_witness:
  "JSON_stringify (stub_env (Inl (Error ''ECONNRESET''))) (args_of ListVisibleApps) = Inr ''{}''
   \<and> client_callMcpTool (stub_env (Inl (Error ''ECONNRESET'')))
       (CallMcpToolRequest (stub_env (Inl (Error ''ECONNRESET''))) (toolName_of ListVisibleApps) ''{}'')
       = Inl (Error ''ECONNRESET'')
   \<and> (\<exists>r m. run (stub_env (Inl (Error ''ECONNRESET''))) ListVisibleApps = Inr r \<and> \<not> success r
          \<and> requestId r = [] \<and> errorMessage r = Some m \<and> m \<noteq> [])"
  using errors_become_failure_results [of "stub_env (Inl (Error ''ECONNRESET''))" ListVisibleApps]
  by (simp add: stub_defs)

text \<open>
  C2, as the specification states it, fails: with \<^verbatim>\<open>isError = true\<close> and a first content
  item \<^verbatim>\<open>{text: ""}\<close> the text field is present, yet the helper raises with the default
  error message, not with the (empty) text: the source tests the field for truthiness.
\<close>

theorem tool_error_default_for_empty_text_counterexample:
  "p_isError \<lparr>p_isError = JBool True, p_content = Some [JObj [(''text'', JStr [])]]\<rparr> = JBool True
   \<and> map_of [(''text'', JStr [])] ''text'' = Some (JStr [])
   \<and> callMcpTool_try
        (stub_env (Inr (stub_response (JBool True) (Some [JObj [(''text'', JStr [])]]))))
        ''stop_app_by_cmd'' (JObj [(''stop_cmd'', JStr ''kill'')]) ''Failed to stop app by command''
      = Inl (Error ''Failed to stop app by command'')
   \<and> callMcpTool_try
        (stub_env (Inr (stub_response (JBool True) (Some [JObj [(''text'', JStr [])]]))))
        ''stop_app_by_cmd'' (JObj [(''stop_cmd'', JStr ''kill'')]) ''Failed to stop app by command''
      \<noteq> Inl (Error [])"
  by (simp add: stub_defs callMcpTool_try_def send_request_def response_data_def)

text \<open>
  C2, amended. For every call of \<^verbatim>\<open>callMcpTool\<close> whose response payload has
  \<^verbatim>\<open>isError = true\<close>, the helper raises and never returns a result. When the first content
  item's \<^verbatim>\<open>text\<close> is a non-empty string it raises with that text. When the \<^verbatim>\<open>text\<close> is
  truthy but not a string it raises with the text's string conversion, or with the
  exception that conversion throws. Otherwise (no content, an empty content sequence, a
  first item without \<^verbatim>\<open>text\<close>, or a falsy \<^verbatim>\<open>text\<close> such as the empty string) it raises with
  the caller-supplied default error message. What is raised is wrapped into an
  \<^verbatim>\<open>APIError\<close> naming the tool. Consequently, when the first item's \<^verbatim>\<open>text\<close> is a non-empty
  string such as \<^verbatim>\<open>"boom"\<close>, each public operation returns \<^verbatim>\<open>success = false\<close> with an
  \<^verbatim>\<open>errorMessage\<close> containing that string.
\<close>

theorem tool_error_raises:
  assumes "send_request env toolName args = Inr response"
    and "response_data response = Some pl"
    and "p_isError pl = JBool True"
  shows "(\<exists>error. callMcpTool env toolName args defaultErrorMsg = Inl error)
     \<and> (\<forall>first others t. p_content pl = Some (first # others)
            \<and> js_get first ''text'' = JStr t \<and> t \<noteq> [] \<longrightarrow>
           callMcpTool_try env toolName args defaultErrorMsg = Inl (Error t)
           \<and> callMcpTool env toolName args defaultErrorMsg
             = Inl (APIError env (''Failed to call '' @ toolName @ '': Error: '' @ t)))
     \<and> (\<forall>first others. p_content pl = Some (first # others)
            \<and> js_truthy (js_get first ''text'') \<and> js_typeof (js_get first ''text'') \<noteq> ''string'' \<longrightarrow>
           callMcpTool_try env toolName args defaultErrorMsg
             = (case ToString env (js_get first ''text'') of
                  Inl error \<Rightarrow> Inl error | Inr msg \<Rightarrow> Inl (Error msg)))
     \<and> (p_content pl = None \<or> p_content pl = Some []
          \<or> (\<exists>first others. p_content pl = Some (first # others)
                \<and> \<not> js_truthy (js_get first ''text'')) \<longrightarrow>
           callMcpTool_try env toolName args defaultErrorMsg = Inl (Error defaultErrorMsg)
           \<and> callMcpTool env toolName args defaultErrorMsg
             = Inl (APIError env (''Failed to call '' @ toolName @ '': ''
                      @ exn_toString (Error defaultErrorMsg))))
     \<and> (\<forall>error. callMcpTool_try env toolName args defaultErrorMsg = Inl error \<longrightarrow>
           callMcpTool env toolName args defaultErrorMsg
             = Inl (APIError env (''Failed to call '' @ toolName @ '': '' @ exn_toString error)))
     \<and> (\<forall>op first others t. toolName = toolName_of op \<and> args = args_of op
            \<and> p_content pl = Some (first # others) \<and> js_get first ''text'' = JStr t \<and> t \<noteq> [] \<longrightarrow>
           (\<exists>r m. run env op = Inr r \<and> \<not> success r \<and> requestId r = []
                  \<and> errorMessage r = Some m \<and> sublist t m))"
proof (intro conjI allI impI)
  show "\<exists>error. callMcpTool env toolName args defaultErrorMsg = Inl error"
    using callMcpTool_try_isError_raises [OF assms] callMcpTool_wraps by blast
next
  fix first others t
  assume a: "p_content pl = Some (first # others) \<and> js_get first ''text'' = JStr t \<and> t \<noteq> []"
  then show inner: "callMcpTool_try env toolName args defaultErrorMsg = Inl (Error t)"
    using callMcpTool_try_isError [OF assms, of defaultErrorMsg] by (simp add: new_Error_def)
  show "callMcpTool env toolName args defaultErrorMsg
          = Inl (APIError env (''Failed to call '' @ toolName @ '': Error: '' @ t))"
    using callMcpTool_wraps [OF inner] a by simp
next
  fix first others
  assume a: "p_content pl = Some (first # others)
            \<and> js_truthy (js_get first ''text'') \<and> js_typeof (js_get first ''text'') \<noteq> ''string''"
  then have "new_Error env (js_get first ''text'')
               = (case ToString env (js_get first ''text'') of
                    Inl error \<Rightarrow> Inl error | Inr msg \<Rightarrow> Inr (Error msg))"
    by (cases "js_get first ''text''") (simp_all add: new_Error_def)
  then show "callMcpTool_try env toolName args defaultErrorMsg
               = (case ToString env (js_get first ''text'') of
                    Inl error \<Rightarrow> Inl error | Inr msg \<Rightarrow> Inl (Error msg))"
    using callMcpTool_try_isError [OF assms, of defaultErrorMsg] a
    by (simp split: sum.splits)
next
  assume a: "p_content pl = None \<or> p_content pl = Some []
          \<or> (\<exists>first others. p_content pl = Some (first # others)
                \<and> \<not> js_truthy (js_get first ''text''))"
  then show "callMcpTool_try env toolName args defaultErrorMsg = Inl (Error defaultErrorMsg)"
    using callMcpTool_try_isError [OF assms, of defaultErrorMsg] by auto
  then show "callMcpTool env toolName args defaultErrorMsg
               = Inl (APIError env (''Failed to call '' @ toolName @ '': ''
                        @ exn_toString (Error defaultErrorMsg)))"
    by (rule callMcpTool_wraps)
next
  fix error
  assume "callMcpTool_try env toolName args defaultErrorMsg = Inl error"
  then show "callMcpTool env toolName args defaultErrorMsg
               = Inl (APIError env (''Failed to call '' @ toolName @ '': '' @ exn_toString error))"
    by (rule callMcpTool_wraps)
next
  fix op first others t
  assume a: "toolName = toolName_of op \<and> args = args_of op
            \<and> p_content pl = Some (first # others) \<and> js_get first ''text'' = JStr t \<and> t \<noteq> []"
  let ?inner = "''Failed to call '' @ toolName_of op @ '': Error: '' @ t"
  let ?m = "defaultErrorMsg_of op @ '': '' @ exn_toString (Exn (APIError_name env) ?inner)"
  have "callMcpTool_try env (toolName_of op) (args_of op) (defaultErrorMsg_of op) = Inl (Error t)"
    using callMcpTool_try_isError [OF assms, of "defaultErrorMsg_of op"] a
    by (simp add: new_Error_def)
  then have "callMcpTool env (toolName_of op) (args_of op) (defaultErrorMsg_of op)
               = Inl (APIError env ?inner)"
    using callMcpTool_wraps [of env "toolName_of op" "args_of op" "defaultErrorMsg_of op" "Error t"] a
    by simp
  then have run: "run env op = Inr \<lparr>requestId = [], success = False, errorMessage = Some ?m\<rparr>"
    by (simp add: run_callMcpTool_Inl APIError_def)
  have "?inner = (''Failed to call '' @ toolName_of op @ '': Error: '') @ t @ []" by simp
  then have "sublist t ?inner" unfolding sublist_def by blast
  then have "sublist t ?m" by (rule sublist_failure_message)
  then show "\<exists>r m. run env op = Inr r \<and> \<not> success r \<and> requestId r = []
                  \<and> errorMessage r = Some m \<and> sublist t m"
    using run by simp
qed

theorem tool_error_raises_witness:
  "send_request (stub_env (Inr (stub_response (JBool True) (Some [JObj [(''text'', JStr ''boom'')]]))))
       (toolName_of (StartApp ''run.sh'' None None)) (args_of (StartApp ''run.sh'' None None))
     = Inr (stub_response (JBool True) (Some [JObj [(''text'', JStr ''boom'')]]))
   \<and> response_data (stub_response (JBool True) (Some [JObj [(''text'', JStr ''boom'')]]))
     = Some \<lparr>p_isError = JBool True, p_content = Some [JObj [(''text'', JStr ''boom'')]]\<rparr>
   \<and> callMcpTool_try
        (stub_env (Inr (stub_response (JBool True) (Some [JObj [(''text'', JStr ''boom'')]]))))
        (toolName_of (StartApp ''run.sh'' None None)) (args_of (StartApp ''run.sh'' None None))
        ''Failed to start app''
     = Inl (Error ''boom'')
   \<and> (\<exists>r m. run (stub_env (Inr (stub_response (JBool True) (Some [JObj [(''text'', JStr ''boom'')]]))))
               (StartApp ''run.sh'' None None) = Inr r
          \<and> \<not> success r \<and> requestId r = [] \<and> errorMessage r = Some m \<and> sublist ''boom'' m)"
proof -
  let ?response = "stub_response (JBool True) (Some [JObj [(''text'', JStr ''boom'')]])"
  let ?pl = "\<lparr>p_isError = JBool True, p_content = Some [JObj [(''text'', JStr ''boom'')]]\<rparr>"
  let ?op = "StartApp ''run.sh'' None None"
  have h1: "send_request (stub_env (Inr ?response)) (toolName_of ?op) (args_of ?op) = Inr ?response"
    by (simp add: stub_defs send_request_def)
  have h2: "response_data ?response = Some ?pl"
    by (simp add: stub_defs response_data_def)
  have h3: "p_isError ?pl = JBool True" by simp
  note T = tool_error_raises [OF h1 h2 h3, of "''Failed to start app''"]
  have raised: "callMcpTool_try (stub_env (Inr ?response)) (toolName_of ?op) (args_of ?op)
                  ''Failed to start app'' = Inl (Error ''boom'')"
    using T [THEN conjunct2, THEN conjunct1, rule_format,
             of "JObj [(''text'', JStr ''boom'')]" "[]" "''boom''"]
    by simp
  have "\<exists>r m. run (stub_env (Inr ?response)) ?op = Inr r
          \<and> \<not> success r \<and> requestId r = [] \<and> errorMessage r = Some m \<and> sublist ''boom'' m"
    using T [THEN conjunct2, THEN conjunct2, THEN conjunct2, THEN conjunct2, THEN conjunct2,
             rule_format, of ?op "JObj [(''text'', JStr ''boom'')]" "[]" "''boom''"]
    by simp
  then show ?thesis using h1 h2 raised by simp
qed

text \<open>
  C3, as the specification states it, fails: an item whose \<^verbatim>\<open>text\<close> is the empty string
  has a string text field, yet the loop skips it (the guard tests \<^verbatim>\<open>item.text\<close> for
  truthiness before its type), so the items \<^verbatim>\<open>[{text:"a"}, {text:""}, {text:"b"}]\<close> give
  \<^verbatim>\<open>"a\nb"\<close> where the specification's reading gives \<^verbatim>\<open>"a\n\nb"\<close>; and for an empty
  content sequence \<^verbatim>\<open>textContent\<close> stays absent instead of being the empty join.
\<close>

theorem textContent_skips_empty_text_counterexample:
  "map_sum id textContent
      (callMcpTool
         (stub_env (Inr (stub_response (JBool False)
            (Some [JObj [(''text'', JStr ''a'')], JObj [(''text'', JStr [])],
                   JObj [(''text'', JStr ''b'')]]))))
         ''list_visible_apps'' (JObj []) ''Failed to list visible apps'')
     = Inr (Some [CHR ''a'', CHR 0x0A, CHR ''b''])
   \<and> spec_textContent
        [JObj [(''text'', JStr ''a'')], JObj [(''text'', JStr [])], JObj [(''text'', JStr ''b'')]]
     = [CHR ''a'', CHR 0x0A, CHR 0x0A, CHR ''b'']
   \<and> map_sum id textContent
      (callMcpTool
         (stub_env (Inr (stub_response (JBool False) (Some []))))
         ''list_visible_apps'' (JObj []) ''Failed to list visible apps'')
     = Inr None
   \<and> spec_textContent [] = []
   \<and> map_sum id textContent
      (callMcpTool
         (stub_env (Inr (stub_response (JBool False)
            (Some [JObj [(''text'', JStr ''a'')], JObj [(''text'', JStr [])],
                   JObj [(''text'', JStr ''b'')]]))))
         ''list_visible_apps'' (JObj []) ''Failed to list visible apps'')
     \<noteq> Inr (Some (spec_textContent
          [JObj [(''text'', JStr ''a'')], JObj [(''text'', JStr [])],
           JObj [(''text'', JStr ''b'')]]))
   \<and> map_sum id textContent
      (callMcpTool
         (stub_env (Inr (stub_response (JBool False) (Some []))))
         ''list_visible_apps'' (JObj []) ''Failed to list visible apps'')
     \<noteq> Inr (Some (spec_textContent []))"
  by (simp add: stub_defs callMcpTool_def callMcpTool_try_def try_catch_def send_request_def
      response_data_def spec_textContent_def newline_def)

text \<open>
  C3, amended. For every success response whose payload carries a content sequence,
  \<^verbatim>\<open>callMcpTool\<close> copies the sequence into the result; when the sequence is non-empty,
  \<^verbatim>\<open>textContent\<close> is the newline-joined concatenation, in sequence order, of the \<^verbatim>\<open>text\<close> of
  exactly those items that are objects with a non-empty string \<^verbatim>\<open>text\<close>; when it is
  empty, \<^verbatim>\<open>textContent\<close> is absent. In particular the items
  \<^verbatim>\<open>[{text:"a"}, {text:"b"}, {}]\<close> yield \<^verbatim>\<open>"a\nb"\<close>.
\<close>

theorem textContent_joins_nonempty_texts:
  assumes "send_request env toolName args = Inr response"
    and "response_data response = Some pl"
    and "p_isError pl \<noteq> JBool True"
    and "p_content pl = Some content"
  shows "\<exists>result. callMcpTool env toolName args defaultErrorMsg = Inr result
           \<and> r_content result = Some content
           \<and> textContent result =
               (if content = [] then None
                else Some (js_join newline (List.map_filter nonempty_string_text content)))"
  using callMcpTool_ok [OF assms(1,2,3), of defaultErrorMsg] assms(4)
  by (simp add: textParts_loop_map_filter)

theorem textContent_joins_nonempty_texts_witness:
  "send_request
      (stub_env (Inr (stub_response (JBool False)
         (Some [JObj [(''text'', JStr ''a'')], JObj [(''text'', JStr ''b'')], JObj []]))))
      ''list_visible_apps'' (JObj [])
     = Inr (stub_response (JBool False)
         (Some [JObj [(''text'', JStr ''a'')], JObj [(''text'', JStr ''b'')], JObj []]))
   \<and> (\<exists>result. callMcpTool
         (stub_env (Inr (stub_response (JBool False)
            (Some [JObj [(''text'', JStr ''a'')], JObj [(''text'', JStr ''b'')], JObj []]))))
         ''list_visible_apps'' (JObj []) ''Failed to list visible apps'' = Inr result
       \<and> textContent result = Some [CHR ''a'', CHR 0x0A, CHR ''b''])"
  using textContent_joins_nonempty_texts
    [of "stub_env (Inr (stub_response (JBool False)
            (Some [JObj [(''text'', JStr ''a'')], JObj [(''text'', JStr ''b'')], JObj []])))"
        "''list_visible_apps''" "JObj []"
        "stub_response (JBool False)
            (Some [JObj [(''text'', JStr ''a'')], JObj [(''text'', JStr ''b'')], JObj []])"
        "\<lparr>p_isError = JBool False,
          p_content = Some [JObj [(''text'', JStr ''a'')], JObj [(''text'', JStr ''b'')], JObj []]\<rparr>"
        "[JObj [(''text'', JStr ''a'')], JObj [(''text'', JStr ''b'')], JObj []]"
        "''Failed to list visible apps''"]
  by (auto simp add: stub_defs send_request_def response_data_def newline_def)



text \<open>
  C5. \<^verbatim>\<open>startApp(startCmd, workDirectory, activity)\<close> sends to the \<^verbatim>\<open>start_app\<close> tool the
  mapping that has \<^verbatim>\<open>start_cmd\<close>, then \<^verbatim>\<open>work_directory\<close> if and only if \<^verbatim>\<open>workDirectory\<close> is
  given and non-empty, then \<^verbatim>\<open>activity\<close> if and only if \<^verbatim>\<open>activity\<close> is given and non-empty;
  with both empty (passed as \<^verbatim>\<open>""\<close> or omitted) the mapping is exactly
  \<^verbatim>\<open>{start_cmd: startCmd}\<close>. That mapping is what is sent, for all arguments: the outcome
  of \<^verbatim>\<open>startApp\<close> is the transport's answer to the \<^verbatim>\<open>start_app\<close> request whose \<^verbatim>\<open>args\<close> is the
  serialisation of that mapping, be it a rejection or a success response.
\<close>

theorem startApp_sends_only_nonempty_arguments:
  "startApp_args startCmd (Some []) (Some []) = [(''start_cmd'', JStr startCmd)]
   \<and> startApp_args startCmd None None = [(''start_cmd'', JStr startCmd)]
   \<and> startApp_args startCmd workDirectory activity =
       (''start_cmd'', JStr startCmd)
       # (case workDirectory of
            None \<Rightarrow> []
          | Some w \<Rightarrow> if w = [] then [] else [(''work_directory'', JStr w)])
       @ (case activity of
            None \<Rightarrow> []
          | Some a \<Rightarrow> if a = [] then [] else [(''activity'', JStr a)])
   \<and> (''work_directory'' \<in> fst ` set (startApp_args startCmd workDirectory activity)
        \<longleftrightarrow> (\<exists>w. workDirectory = Some w \<and> w \<noteq> []))
   \<and> (''activity'' \<in> fst ` set (startApp_args startCmd workDirectory activity)
        \<longleftrightarrow> (\<exists>a. activity = Some a \<and> a \<noteq> []))
   \<and> (\<forall>argsJSON e.
         JSON_stringify env (JObj [(''start_cmd'', JStr startCmd)]) = Inr argsJSON
         \<and> client_callMcpTool env
             \<lparr>rq_authorization = ''Bearer '' @ getAPIKey env, rq_sessionId = getSessionId env,
              rq_name = ''start_app'', rq_args = argsJSON\<rparr> = Inl e
         \<longrightarrow> startApp env startCmd (Some []) (Some []) =
               Inr \<lparr>requestId = [], success = False,
                    errorMessage = Some (''Failed to start app: '' @ exn_toString
                      (APIError env (''Failed to call start_app: '' @ exn_toString e))),
                    data = JArr []\<rparr>)
   \<and> (\<forall>argsJSON e.
         JSON_stringify env
           (JObj ((''start_cmd'', JStr startCmd)
                  # (case workDirectory of
                       None \<Rightarrow> []
                     | Some w \<Rightarrow> if w = [] then [] else [(''work_directory'', JStr w)])
                  @ (case activity of
                       None \<Rightarrow> []
                     | Some a \<Rightarrow> if a = [] then [] else [(''activity'', JStr a)])))
           = Inr argsJSON
         \<and> client_callMcpTool env
             \<lparr>rq_authorization = ''Bearer '' @ getAPIKey env, rq_sessionId = getSessionId env,
              rq_name = ''start_app'', rq_args = argsJSON\<rparr> = Inl e
         \<longrightarrow> startApp env startCmd workDirectory activity =
               Inr \<lparr>requestId = [], success = False,
                    errorMessage = Some (''Failed to start app: '' @ exn_toString
                      (APIError env (''Failed to call start_app: '' @ exn_toString e))),
                    data = JArr []\<rparr>)
   \<and> (\<forall>argsJSON response pl.
         JSON_stringify env
           (JObj ((''start_cmd'', JStr startCmd)
                  # (case workDirectory of
                       None \<Rightarrow> []
                     | Some w \<Rightarrow> if w = [] then [] else [(''work_directory'', JStr w)])
                  @ (case activity of
                       None \<Rightarrow> []
                     | Some a \<Rightarrow> if a = [] then [] else [(''activity'', JStr a)])))
           = Inr argsJSON
         \<and> client_callMcpTool env
             \<lparr>rq_authorization = ''Bearer '' @ getAPIKey env, rq_sessionId = getSessionId env,
              rq_name = ''start_app'', rq_args = argsJSON\<rparr> = Inr response
         \<and> response_data response = Some pl \<and> p_isError pl \<noteq> JBool True \<and> p_content pl = None
         \<longrightarrow> startApp env startCmd workDirectory activity =
               Inr \<lparr>requestId = (case extractRequestId env response of None \<Rightarrow> [] | Some rid \<Rightarrow> rid),
                    success = True, errorMessage = None, data = JArr []\<rparr>)"
proof -
  let ?mapping = "(''start_cmd'', JStr startCmd)
       # (case workDirectory of
            None \<Rightarrow> []
          | Some w \<Rightarrow> if w = [] then [] else [(''work_directory'', JStr w)])
       @ (case activity of
            None \<Rightarrow> []
          | Some a \<Rightarrow> if a = [] then [] else [(''activity'', JStr a)])"
  have args: "startApp_args startCmd workDirectory activity = ?mapping"
    by (simp add: startApp_args_def default_param_def split: option.splits)
  have empty: "startApp_args startCmd (Some []) (Some []) = [(''start_cmd'', JStr startCmd)]"
    by (simp add: startApp_args_def default_param_def)
  have omitted: "startApp_args startCmd None None = [(''start_cmd'', JStr startCmd)]"
    by (simp add: startApp_args_def default_param_def)
  have wd: "''work_directory'' \<in> fst ` set (startApp_args startCmd workDirectory activity)
        \<longleftrightarrow> (\<exists>w. workDirectory = Some w \<and> w \<noteq> [])"
    unfolding args by (cases workDirectory; cases activity; simp)
  have act: "''activity'' \<in> fst ` set (startApp_args startCmd workDirectory activity)
        \<longleftrightarrow> (\<exists>a. activity = Some a \<and> a \<noteq> [])"
    unfolding args by (cases workDirectory; cases activity; simp)
  have rejected: "startApp env startCmd wd' act' =
               Inr \<lparr>requestId = [], success = False,
                    errorMessage = Some (''Failed to start app: '' @ exn_toString
                      (APIError env (''Failed to call start_app: '' @ exn_toString e))),
                    data = JArr []\<rparr>"
    if "JSON_stringify env (JObj (startApp_args startCmd wd' act')) = Inr argsJSON"
      and "client_callMcpTool env
             \<lparr>rq_authorization = ''Bearer '' @ getAPIKey env, rq_sessionId = getSessionId env,
              rq_name = ''start_app'', rq_args = argsJSON\<rparr> = Inl e"
    for wd' act' argsJSON e
  proof -
    have "send_request env ''start_app'' (JObj (startApp_args startCmd wd' act')) = Inl e"
      using that by (simp add: send_request_def CallMcpToolRequest_def)
    then show ?thesis
      by (simp add: startApp_def startApp_try_def callMcpTool_send_fails try_catch_def)
  qed
  have answered: "startApp env startCmd workDirectory activity =
               Inr \<lparr>requestId = (case extractRequestId env response of None \<Rightarrow> [] | Some rid \<Rightarrow> rid),
                    success = True, errorMessage = None, data = JArr []\<rparr>"
    if "JSON_stringify env (JObj ?mapping) = Inr argsJSON"
      and "client_callMcpTool env
             \<lparr>rq_authorization = ''Bearer '' @ getAPIKey env, rq_sessionId = getSessionId env,
              rq_name = ''start_app'', rq_args = argsJSON\<rparr> = Inr response"
      and "response_data response = Some pl" and "p_isError pl \<noteq> JBool True"
      and "p_content pl = None"
    for argsJSON response pl
  proof -
    have "send_request env ''start_app'' (JObj (startApp_args startCmd workDirectory activity))
            = Inr response"
      using that(1,2) by (simp add: args send_request_def CallMcpToolRequest_def)
    from callMcpTool_ok [OF this that(3,4), of "''Failed to start app''"] that(5)
    show ?thesis
      by (simp add: startApp_def startApp_try_def try_catch_def parse_textContent_def
          or_empty_def)
  qed
  show ?thesis
  proof (intro conjI allI impI)
    show "startApp_args startCmd (Some []) (Some []) = [(''start_cmd'', JStr startCmd)]"
      by (rule empty)
    show "startApp_args startCmd None None = [(''start_cmd'', JStr startCmd)]"
      by (rule omitted)
    show "startApp_args startCmd workDirectory activity = ?mapping" by (rule args)
    show "''work_directory'' \<in> fst ` set (startApp_args startCmd workDirectory activity)
        \<longleftrightarrow> (\<exists>w. workDirectory = Some w \<and> w \<noteq> [])" by (rule wd)
    show "''activity'' \<in> fst ` set (startApp_args startCmd workDirectory activity)
        \<longleftrightarrow> (\<exists>a. activity = Some a \<and> a \<noteq> [])" by (rule act)
  next
    fix argsJSON e
    assume "JSON_stringify env (JObj [(''start_cmd'', JStr startCmd)]) = Inr argsJSON
         \<and> client_callMcpTool env
             \<lparr>rq_authorization = ''Bearer '' @ getAPIKey env, rq_sessionId = getSessionId env,
              rq_name = ''start_app'', rq_args = argsJSON\<rparr> = Inl e"
    then show "startApp env startCmd (Some []) (Some []) =
               Inr \<lparr>requestId = [], success = False,
                    errorMessage = Some (''Failed to start app: '' @ exn_toString
                      (APIError env (''Failed to call start_app: '' @ exn_toString e))),
                    data = JArr []\<rparr>"
      using rejected [of "Some []" "Some []" argsJSON e] by (simp add: empty)
  next
    fix argsJSON e
    assume "JSON_stringify env (JObj ?mapping) = Inr argsJSON
         \<and> client_callMcpTool env
             \<lparr>rq_authorization = ''Bearer '' @ getAPIKey env, rq_sessionId = getSessionId env,
              rq_name = ''start_app'', rq_args = argsJSON\<rparr> = Inl e"
    then show "startApp env startCmd workDirectory activity =
               Inr \<lparr>requestId = [], success = False,
                    errorMessage = Some (''Failed to start app: '' @ exn_toString
                      (APIError env (''Failed to call start_app: '' @ exn_toString e))),
                    data = JArr []\<rparr>"
      using rejected [of workDirectory activity argsJSON e] by (simp add: args)
  next
    fix argsJSON response pl
    assume "JSON_stringify env (JObj ?mapping) = Inr argsJSON
         \<and> client_callMcpTool env
             \<lparr>rq_authorization = ''Bearer '' @ getAPIKey env, rq_sessionId = getSessionId env,
              rq_name = ''start_app'', rq_args = argsJSON\<rparr> = Inr response
         \<and> response_data response = Some pl \<and> p_isError pl \<noteq> JBool True \<and> p_content pl = None"
    then show "startApp env startCmd workDirectory activity =
               Inr \<lparr>requestId = (case extractRequestId env response of None \<Rightarrow> [] | Some rid \<Rightarrow> rid),
                    success = True, errorMessage = None, data = JArr []\<rparr>"
      using answered [of argsJSON response pl] by simp
  qed
qed

theorem startApp_sends_only_nonempty_arguments_witness:
  "startApp_args ''run.sh'' (Some []) (Some []) = [(''start_cmd'', JStr ''run.sh'')]
   \<and> startApp_args ''run.sh'' (Some ''/tmp'') (Some [])
       = [(''start_cmd'', JStr ''run.sh''), (''work_directory'', JStr ''/tmp'')]
   \<and> JSON_stringify picky_env
         (JObj [(''start_cmd'', JStr ''run.sh''), (''work_directory'', JStr ''/tmp'')])
       = Inr ''start_cmd,work_directory''
   \<and> client_callMcpTool picky_env
         \<lparr>rq_authorization = ''Bearer '' @ getAPIKey picky_env,
          rq_sessionId = getSessionId picky_env,
          rq_name = ''start_app'', rq_args = ''start_cmd,work_directory''\<rparr>
       = Inl (Error ''down'')
   \<and> startApp picky_env ''run.sh'' (Some ''/tmp'') (Some [])
       = Inr \<lparr>requestId = [], success = False,
              errorMessage =
                Some ''Failed to start app: APIError: Failed to call start_app: Error: down'',
              data = JArr []\<rparr>
   \<and> JSON_stringify picky_env (JObj [(''start_cmd'', JStr ''run.sh'')]) = Inr ''start_cmd''
   \<and> startApp picky_env ''run.sh'' (Some []) (Some [])
       = Inr \<lparr>requestId = ''req-1'', success = True, errorMessage = None, data = JArr []\<rparr>"
proof -
  have s1: "JSON_stringify picky_env
              (JObj [(''start_cmd'', JStr ''run.sh''), (''work_directory'', JStr ''/tmp'')])
            = Inr ''start_cmd,work_directory''"
    by (simp add: picky_env_def stub_defs keys_stringify_def)
  have t1: "client_callMcpTool picky_env
         \<lparr>rq_authorization = ''Bearer '' @ getAPIKey picky_env,
          rq_sessionId = getSessionId picky_env,
          rq_name = ''start_app'', rq_args = ''start_cmd,work_directory''\<rparr>
       = Inl (Error ''down'')"
    by (simp add: picky_env_def stub_defs picky_transport_def)
  have s2: "JSON_stringify picky_env (JObj [(''start_cmd'', JStr ''run.sh'')]) = Inr ''start_cmd''"
    by (simp add: picky_env_def stub_defs keys_stringify_def)
  have t2: "client_callMcpTool picky_env
         \<lparr>rq_authorization = ''Bearer '' @ getAPIKey picky_env,
          rq_sessionId = getSessionId picky_env,
          rq_name = ''start_app'', rq_args = ''start_cmd''\<rparr>
       = Inr (stub_response (JBool False) None)"
    by (simp add: picky_env_def stub_defs picky_transport_def)
  note A = startApp_sends_only_nonempty_arguments [of "''run.sh''" "Some ''/tmp''" "Some []" picky_env]
  note B = startApp_sends_only_nonempty_arguments [of "''run.sh''" "Some []" "Some []" picky_env]
  have a3: "startApp_args ''run.sh'' (Some ''/tmp'') (Some [])
       = [(''start_cmd'', JStr ''run.sh''), (''work_directory'', JStr ''/tmp'')]"
    using A [THEN conjunct2, THEN conjunct2, THEN conjunct1] by simp
  have b1: "startApp_args ''run.sh'' (Some []) (Some []) = [(''start_cmd'', JStr ''run.sh'')]"
    using B [THEN conjunct1] by simp
  have down: "startApp picky_env ''run.sh'' (Some ''/tmp'') (Some [])
       = Inr \<lparr>requestId = [], success = False,
              errorMessage =
                Some ''Failed to start app: APIError: Failed to call start_app: Error: down'',
              data = JArr []\<rparr>"
    using A [THEN conjunct2, THEN conjunct2, THEN conjunct2, THEN conjunct2, THEN conjunct2,
             THEN conjunct2, THEN conjunct1, rule_format,
             of "''start_cmd,work_directory''" "Error ''down''"] s1 t1
    by (simp add: APIError_def picky_env_def stub_env_def)
  have up: "startApp picky_env ''run.sh'' (Some []) (Some [])
       = Inr \<lparr>requestId = ''req-1'', success = True, errorMessage = None, data = JArr []\<rparr>"
    using B [THEN conjunct2, THEN conjunct2, THEN conjunct2, THEN conjunct2, THEN conjunct2,
             THEN conjunct2, THEN conjunct2, rule_format,
             of "''start_cmd''" "stub_response (JBool False) None"
                "\<lparr>p_isError = JBool False, p_content = None\<rparr>"] s2 t2
    by (simp add: picky_env_def stub_defs response_data_def)
  show ?thesis using b1 a3 s1 t1 down s2 up by simp
qed

text \<open>
  C6. \<^verbatim>\<open>getInstalledApps()\<close> with no arguments builds the mapping
  \<^verbatim>\<open>{start_menu: true, desktop: true, ignore_system_apps: true}\<close>: each of the three
  parameters is \<^verbatim>\<open>true\<close> when omitted and the given value otherwise. That mapping is what
  is sent: the outcome of \<^verbatim>\<open>getInstalledApps()\<close> is decided by the transport's answer to
  the \<^verbatim>\<open>get_installed_apps\<close> request whose \<^verbatim>\<open>args\<close> is its serialisation.
\<close>

theorem getInstalledApps_defaults_to_true:
  "getInstalledApps_args None None None =
     [(''start_menu'', JBool True), (''desktop'', JBool True), (''ignore_system_apps'', JBool True)]
   \<and> getInstalledApps_args startMenu desktop ignoreSystemApps =
       [(''start_menu'', JBool (case startMenu of None \<Rightarrow> True | Some b \<Rightarrow> b)),
        (''desktop'', JBool (case desktop of None \<Rightarrow> True | Some b \<Rightarrow> b)),
        (''ignore_system_apps'', JBool (case ignoreSystemApps of None \<Rightarrow> True | Some b \<Rightarrow> b))]
   \<and> (\<forall>argsJSON e.
         JSON_stringify env
           (JObj [(''start_menu'', JBool True), (''desktop'', JBool True),
                  (''ignore_system_apps'', JBool True)]) = Inr argsJSON
         \<and> client_callMcpTool env
             \<lparr>rq_authorization = ''Bearer '' @ getAPIKey env, rq_sessionId = getSessionId env,
              rq_name = ''get_installed_apps'', rq_args = argsJSON\<rparr> = Inl e
         \<longrightarrow> getInstalledApps env None None None =
               Inr \<lparr>requestId = [], success = False,
                    errorMessage = Some (''Failed to get installed apps: '' @ exn_toString
                      (APIError env (''Failed to call get_installed_apps: '' @ exn_toString e))),
                    data = JArr []\<rparr>)"
  by (simp add: getInstalledApps_args_def default_param_def op_defs callMcpTool_def
      callMcpTool_try_def send_request_def CallMcpToolRequest_def try_catch_def)

theorem getInstalledApps_defaults_to_true_witness:
  "getInstalledApps_args None None None =
     [(''start_menu'', JBool True), (''desktop'', JBool True), (''ignore_system_apps'', JBool True)]
   \<and> JSON_stringify (stub_env (Inl (Error ''down'')))
         (JObj [(''start_menu'', JBool True), (''desktop'', JBool True),
                (''ignore_system_apps'', JBool True)])
       = Inr ''{}''
   \<and> client_callMcpTool (stub_env (Inl (Error ''down'')))
         \<lparr>rq_authorization = ''Bearer '' @ getAPIKey (stub_env (Inl (Error ''down''))),
          rq_sessionId = getSessionId (stub_env (Inl (Error ''down''))),
          rq_name = ''get_installed_apps'', rq_args = ''{}''\<rparr>
       = Inl (Error ''down'')
   \<and> getInstalledApps (stub_env (Inl (Error ''down''))) None None None
       = Inr \<lparr>requestId = [], success = False,
              errorMessage =
                Some ''Failed to get installed apps: APIError: Failed to call get_installed_apps: Error: down'',
              data = JArr []\<rparr>"
  using getInstalledApps_defaults_to_true [of None None None "stub_env (Inl (Error ''down''))"]
  by (simp add: stub_defs APIError_def)

text \<open>
  C7. In each of the three list-returning operations, when the call succeeds with a
  \<^verbatim>\<open>textContent\<close> that \<^verbatim>\<open>JSON.parse\<close> decodes to an array of \<open>N\<close> records (such a text is
  never empty), the operation returns \<^verbatim>\<open>success = true\<close> and its \<^verbatim>\<open>data\<close> is that decoded
  array itself: the same \<open>N\<close> records, in order, field for field.
\<close>

theorem parsed_records_round_trip:
  assumes "textContent result = Some tc" and "tc \<noteq> []"
    and "JSON_parse env tc = Inr (JArr records)"
  shows
    "(callMcpTool env ''get_installed_apps''
        (JObj (getInstalledApps_args startMenu desktop ignoreSystemApps))
        ''Failed to get installed apps'' = Inr result \<longrightarrow>
      getInstalledApps env startMenu desktop ignoreSystemApps =
        Inr \<lparr>requestId = (case r_requestId result of None \<Rightarrow> [] | Some rid \<Rightarrow> rid),
             success = True, errorMessage = None, data = JArr records\<rparr>)
     \<and> (callMcpTool env ''start_app'' (JObj (startApp_args startCmd workDirectory activity))
        ''Failed to start app'' = Inr result \<longrightarrow>
      startApp env startCmd workDirectory activity =
        Inr \<lparr>requestId = (case r_requestId result of None \<Rightarrow> [] | Some rid \<Rightarrow> rid),
             success = True, errorMessage = None, data = JArr records\<rparr>)
     \<and> (callMcpTool env ''list_visible_apps'' (JObj []) ''Failed to list visible apps''
          = Inr result \<longrightarrow>
      listVisibleApps env =
        Inr \<lparr>requestId = (case r_requestId result of None \<Rightarrow> [] | Some rid \<Rightarrow> rid),
             success = True, errorMessage = None, data = JArr records\<rparr>)"
  using parse_textContent_ok [OF assms]
  by (simp add: op_defs try_catch_def or_empty_def)

theorem parsed_records_round_trip_witness:
  \<open>callMcpTool
      (stub_env (Inr (stub_response (JBool False)
         (Some [JObj [(''text'', JStr ''[{"pname":"sh","pid":7}]'')]]))))
      ''list_visible_apps'' (JObj []) ''Failed to list visible apps''
    = Inr \<lparr>r_data = \<lparr>p_isError = JBool False,
                       p_content = Some [JObj [(''text'', JStr ''[{"pname":"sh","pid":7}]'')]]\<rparr>,
           r_content = Some [JObj [(''text'', JStr ''[{"pname":"sh","pid":7}]'')]],
           textContent = Some ''[{"pname":"sh","pid":7}]'',
           isError = False, errorMsg = None, r_statusCode = 200, r_requestId = Some ''req-1''\<rparr>
   \<and> JSON_parse
        (stub_env (Inr (stub_response (JBool False)
           (Some [JObj [(''text'', JStr ''[{"pname":"sh","pid":7}]'')]]))))
        ''[{"pname":"sh","pid":7}]''
      = Inr (JArr [JObj [(''pname'', JStr ''sh''), (''pid'', JNum 7)]])
   \<and> listVisibleApps
        (stub_env (Inr (stub_response (JBool False)
           (Some [JObj [(''text'', JStr ''[{"pname":"sh","pid":7}]'')]]))))
      = Inr \<lparr>requestId = ''req-1'', success = True, errorMessage = None,
             data = JArr [JObj [(''pname'', JStr ''sh''), (''pid'', JNum 7)]]\<rparr>\<close>
proof -
  let ?text = \<open>''[{"pname":"sh","pid":7}]''\<close>
  let ?env = "stub_env (Inr (stub_response (JBool False) (Some [JObj [(''text'', JStr ?text)]])))"
  let ?result = "\<lparr>r_data = \<lparr>p_isError = JBool False,
                       p_content = Some [JObj [(''text'', JStr ?text)]]\<rparr>,
           r_content = Some [JObj [(''text'', JStr ?text)]],
           textContent = Some ?text,
           isError = False, errorMsg = None, r_statusCode = 200, r_requestId = Some ''req-1''\<rparr>"
  have call: "callMcpTool ?env ''list_visible_apps'' (JObj []) ''Failed to list visible apps''
                = Inr ?result"
    by (simp add: stub_defs callMcpTool_def callMcpTool_try_def try_catch_def send_request_def
        response_data_def)
  have h1: "textContent ?result = Some ?text" by simp
  have h2: "?text \<noteq> []" by simp
  have h3: "JSON_parse ?env ?text = Inr (JArr [JObj [(''pname'', JStr ''sh''), (''pid'', JNum 7)]])"
    by (simp add: stub_defs)
  have "listVisibleApps ?env
      = Inr \<lparr>requestId = ''req-1'', success = True, errorMessage = None,
             data = JArr [JObj [(''pname'', JStr ''sh''), (''pid'', JNum 7)]]\<rparr>"
    using parsed_records_round_trip [OF h1 h2 h3] call by simp
  then show ?thesis using call h3 by simp
qed



text \<open>
  C9. \<^verbatim>\<open>callMcpTool\<close> never returns a result whose \<^verbatim>\<open>isError\<close> field is true: every result
  it returns has \<^verbatim>\<open>isError = false\<close>, and whenever the payload of the response marks
  \<^verbatim>\<open>isError = true\<close> the helper raises instead of returning.
\<close>

theorem callMcpTool_never_returns_isError:
  "(\<forall>result. callMcpTool env toolName args defaultErrorMsg = Inr result \<longrightarrow> \<not> isError result)
   \<and> (\<forall>response pl. send_request env toolName args = Inr response
          \<and> response_data response = Some pl \<and> p_isError pl = JBool True
        \<longrightarrow> (\<exists>error. callMcpTool env toolName args defaultErrorMsg = Inl error))"
  using callMcpTool_Inr_not_isError callMcpTool_try_isError_raises callMcpTool_wraps by blast

theorem callMcpTool_never_returns_isError_witness:
  "(\<exists>result. callMcpTool (stub_env (Inr (stub_response (JBool False) None))) ''t'' (JObj []) ''d''
       = Inr result \<and> \<not> isError result)
   \<and> send_request (stub_env (Inr (stub_response (JBool True) None))) ''t'' (JObj []) =
       Inr (stub_response (JBool True) None)
   \<and> response_data (stub_response (JBool True) None) =
       Some \<lparr>p_isError = JBool True, p_content = None\<rparr>
   \<and> (\<exists>error. callMcpTool (stub_env (Inr (stub_response (JBool True) None))) ''t'' (JObj []) ''d''
       = Inl error)"
  using callMcpTool_never_returns_isError
          [of "stub_env (Inr (stub_response (JBool False) None))" "''t''" "JObj []" "''d''"]
        callMcpTool_never_returns_isError
          [of "stub_env (Inr (stub_response (JBool True) None))" "''t''" "JObj []" "''d''"]
  by (simp add: stub_defs send_request_def response_data_def callMcpTool_def
      callMcpTool_try_def try_catch_def)

text \<open>
  C10. The three stop operations never read the content or the text payload of the
  response: whenever the response carries a data payload whose \<^verbatim>\<open>isError\<close> is not
  \<^verbatim>\<open>true\<close> (in particular \<^verbatim>\<open>false\<close>), they return \<^verbatim>\<open>success = true\<close> with the response's
  request id, whatever the content is, and their result does not depend on
  \<^verbatim>\<open>JSON.parse\<close> at all. The three list-returning operations, in contrast, fail when a
  non-empty \<^verbatim>\<open>textContent\<close> does not parse.
\<close>

theorem stop_operations_ignore_text_payload:
  assumes "response_data response = Some pl" and "p_isError pl \<noteq> JBool True"
  shows
    "(send_request env ''stop_app_by_pname'' (JObj [(''pname'', JStr pname)]) = Inr response \<longrightarrow>
        stopAppByPName env pname =
          Inr \<lparr>requestId = (case extractRequestId env response of None \<Rightarrow> [] | Some rid \<Rightarrow> rid),
               success = True, errorMessage = None\<rparr>)
     \<and> (send_request env ''stop_app_by_pid'' (JObj [(''pid'', JNum pid)]) = Inr response \<longrightarrow>
        stopAppByPID env pid =
          Inr \<lparr>requestId = (case extractRequestId env response of None \<Rightarrow> [] | Some rid \<Rightarrow> rid),
               success = True, errorMessage = None\<rparr>)
     \<and> (send_request env ''stop_app_by_cmd'' (JObj [(''stop_cmd'', JStr stopCmd)]) = Inr response \<longrightarrow>
        stopAppByCmd env stopCmd =
          Inr \<lparr>requestId = (case extractRequestId env response of None \<Rightarrow> [] | Some rid \<Rightarrow> rid),
               success = True, errorMessage = None\<rparr>)
     \<and> stopAppByPName (env\<lparr>JSON_parse := parse\<rparr>) pname = stopAppByPName env pname
     \<and> stopAppByPID (env\<lparr>JSON_parse := parse\<rparr>) pid = stopAppByPID env pid
     \<and> stopAppByCmd (env\<lparr>JSON_parse := parse\<rparr>) stopCmd = stopAppByCmd env stopCmd
     \<and> (\<forall>op result tc e. parses_textContent op
            \<and> callMcpTool env (toolName_of op) (args_of op) (defaultErrorMsg_of op) = Inr result
            \<and> textContent result = Some tc \<and> tc \<noteq> [] \<and> JSON_parse env tc = Inl e
          \<longrightarrow> (\<exists>r. run env op = Inr r \<and> \<not> success r))"
proof (intro conjI impI allI)
  assume "send_request env ''stop_app_by_pname'' (JObj [(''pname'', JStr pname)]) = Inr response"
  from callMcpTool_ok [OF this assms]
  show "stopAppByPName env pname =
          Inr \<lparr>requestId = (case extractRequestId env response of None \<Rightarrow> [] | Some rid \<Rightarrow> rid),
               success = True, errorMessage = None\<rparr>"
    by (simp add: op_defs try_catch_def or_empty_def)
next
  assume "send_request env ''stop_app_by_pid'' (JObj [(''pid'', JNum pid)]) = Inr response"
  from callMcpTool_ok [OF this assms]
  show "stopAppByPID env pid =
          Inr \<lparr>requestId = (case extractRequestId env response of None \<Rightarrow> [] | Some rid \<Rightarrow> rid),
               success = True, errorMessage = None\<rparr>"
    by (simp add: op_defs try_catch_def or_empty_def)
next
  assume "send_request env ''stop_app_by_cmd'' (JObj [(''stop_cmd'', JStr stopCmd)]) = Inr response"
  from callMcpTool_ok [OF this assms]
  show "stopAppByCmd env stopCmd =
          Inr \<lparr>requestId = (case extractRequestId env response of None \<Rightarrow> [] | Some rid \<Rightarrow> rid),
               success = True, errorMessage = None\<rparr>"
    by (simp add: op_defs try_catch_def or_empty_def)
next
  show "stopAppByPName (env\<lparr>JSON_parse := parse\<rparr>) pname = stopAppByPName env pname"
    by (simp add: op_defs callMcpTool_ignores_parser)
next
  show "stopAppByPID (env\<lparr>JSON_parse := parse\<rparr>) pid = stopAppByPID env pid"
    by (simp add: op_defs callMcpTool_ignores_parser)
next
  show "stopAppByCmd (env\<lparr>JSON_parse := parse\<rparr>) stopCmd = stopAppByCmd env stopCmd"
    by (simp add: op_defs callMcpTool_ignores_parser)
next
  fix op result tc e
  assume "parses_textContent op
            \<and> callMcpTool env (toolName_of op) (args_of op) (defaultErrorMsg_of op) = Inr result
            \<and> textContent result = Some tc \<and> tc \<noteq> [] \<and> JSON_parse env tc = Inl e"
  then show "\<exists>r. run env op = Inr r \<and> \<not> success r"
    by (simp add: run_parse_fails)
qed

theorem stop_operations_ignore_text_payload_witness:
  "response_data (stub_response (JBool False) (Some [JObj [(''text'', JStr ''not json'')]]))
     = Some \<lparr>p_isError = JBool False, p_content = Some [JObj [(''text'', JStr ''not json'')]]\<rparr>
   \<and> send_request
         (stub_env (Inr (stub_response (JBool False) (Some [JObj [(''text'', JStr ''not json'')]]))))
         ''stop_app_by_pname'' (JObj [(''pname'', JStr ''sh'')])
       = Inr (stub_response (JBool False) (Some [JObj [(''text'', JStr ''not json'')]]))
   \<and> stopAppByPName
         (stub_env (Inr (stub_response (JBool False) (Some [JObj [(''text'', JStr ''not json'')]]))))
         ''sh''
       = Inr \<lparr>requestId = ''req-1'', success = True, errorMessage = None\<rparr>
   \<and> (\<exists>r. run
         (stub_env (Inr (stub_response (JBool False) (Some [JObj [(''text'', JStr ''not json'')]]))))
         ListVisibleApps = Inr r \<and> \<not> success r)"
proof -
  let ?content = "Some [JObj [(''text'', JStr ''not json'')]]"
  let ?response = "stub_response (JBool False) ?content"
  let ?pl = "\<lparr>p_isError = JBool False, p_content = ?content\<rparr>"
  let ?env = "stub_env (Inr ?response)"
  let ?result = "\<lparr>r_data = ?pl, r_content = ?content, textContent = Some ''not json'',
                  isError = False, errorMsg = None, r_statusCode = 200,
                  r_requestId = Some ''req-1''\<rparr>"
  have h1: "response_data ?response = Some ?pl"
    by (simp add: stub_defs response_data_def)
  have h2: "p_isError ?pl \<noteq> JBool True" by simp
  have sent: "send_request ?env ''stop_app_by_pname'' (JObj [(''pname'', JStr ''sh'')]) = Inr ?response"
    by (simp add: stub_defs send_request_def)
  have call: "callMcpTool ?env (toolName_of ListVisibleApps) (args_of ListVisibleApps)
                (defaultErrorMsg_of ListVisibleApps) = Inr ?result"
    by (simp add: stub_defs callMcpTool_def callMcpTool_try_def try_catch_def send_request_def
        response_data_def)
  have bad: "JSON_parse ?env ''not json'' = Inl (Exn ''SyntaxError'' ''Unexpected token'')"
    by (simp add: stub_defs)
  note T = stop_operations_ignore_text_payload [OF h1 h2, of ?env "''sh''"]
  have stop: "stopAppByPName ?env ''sh''
                = Inr \<lparr>requestId = ''req-1'', success = True, errorMessage = None\<rparr>"
    using T [THEN conjunct1] sent by (simp add: stub_defs)
  have "\<exists>r. run ?env ListVisibleApps = Inr r \<and> \<not> success r"
    using T [THEN conjunct2, THEN conjunct2, THEN conjunct2, THEN conjunct2, THEN conjunct2,
             THEN conjunct2, rule_format,
             of ListVisibleApps ?result "''not json''" "Exn ''SyntaxError'' ''Unexpected token''"]
          call bad
    by simp
  then show ?thesis using h1 sent stop by simp
qed

end
